theory Spec2Isabelle
  imports Complex_Main "HOL-Library.Sublist"
begin

section \<open>The earthquake pipeline: extract, stage, transform\<close>

text \<open>
  The repository is three scripts around one PostgreSQL database:
  \<^item> \<^verbatim>\<open>process_earthquake_data_starter.py\<close> fetches a feed and writes a CSV file;
  \<^item> \<^verbatim>\<open>load_csv_starter.py\<close> deletes the rows of one file name from the table
    \<^verbatim>\<open>earthquake\<close> and copies the CSV file into it;
  \<^item> \<^verbatim>\<open>transform_earthquake_starter.py\<close> deletes a date window from
    \<^verbatim>\<open>raw.stage_earthquake\<close> and refills it from \<^verbatim>\<open>public.earthquake\<close>.
  Each definition below is one function, SQL statement or SQL operator of these scripts.
\<close>

subsection \<open>SQL text operators of the transform\<close>

text \<open>
  \<^verbatim>\<open>POSITION(sub IN s)\<close>: the 1-based index of the first occurrence of \<open>sub\<close> in
  \<open>s\<close>, and 0 when there is none.
\<close>

fun position :: "string \<Rightarrow> string \<Rightarrow> nat" where
  "position sub [] = (if sub = [] then 1 else 0)"
| "position sub (c # cs) =
     (if prefix sub (c # cs) then 1
      else (case position sub cs of 0 \<Rightarrow> 0 | Suc n \<Rightarrow> Suc (Suc n)))"

text \<open>
  \<^verbatim>\<open>SUBSTRING(s FROM n)\<close>: the characters of \<open>s\<close> from the 1-based position \<open>n\<close>
  to the end; a start before the first character gives the whole text.
\<close>

definition substring_from :: "string \<Rightarrow> int \<Rightarrow> string" where
  "substring_from s n = drop (nat (n - 1)) s"

text \<open>\<^verbatim>\<open>TRIM(s)\<close>: \<open>s\<close> without its leading and trailing space characters.\<close>

definition trim :: "string \<Rightarrow> string" where
  "trim s =
     rev (dropWhile (\<lambda>c. c = CHR '' '') (rev (dropWhile (\<lambda>c. c = CHR '' '') s)))"

text \<open>
  The select-list expression
  \<^verbatim>\<open>TRIM(SUBSTRING(place FROM POSITION('of ' IN place) + 3))\<close>
  on a nullable text column: every operator is strict, so NULL gives NULL.
\<close>

definition clean_place :: "string option \<Rightarrow> string option" where
  "clean_place p =
     map_option (\<lambda>s. trim (substring_from s (int (position ''of '' s) + 3))) p"

subsection \<open>The two tables and the connection\<close>

text \<open>
  Modelled from the spec: the table declarations are not in the repository. The columns are
  those the statements name (\<^verbatim>\<open>time, place, magnitude, longitude, latitude, depth,
  filename\<close> and \<^verbatim>\<open>ts, dt, place, magnitude, longitude, latitude, depth\<close>), with the
  types the spec gives them: \<^verbatim>\<open>time\<close> an integer, the file name and the place text, the
  other four floating point, \<^verbatim>\<open>ts\<close> a timestamp and \<^verbatim>\<open>dt\<close> a date. Every column is
  nullable (\<open>None\<close> is NULL). The scripts only copy the floating-point columns, so any
  carrier does for them; an instant is its number of seconds since the epoch and a date
  its number of days since 1970-01-01. The columns of \<^verbatim>\<open>raw.stage_earthquake\<close> that
  share a name with a column of \<^verbatim>\<open>earthquake\<close> carry the prefix \<open>s_\<close>.
\<close>

type_synonym date = int

record rawrow =
  time :: "int option"
  place :: "string option"
  magnitude :: "real option"
  longitude :: "real option"
  latitude :: "real option"
  depth :: "real option"
  filename :: "string option"

record factrow =
  ts :: "int option"
  dt :: "date option"
  s_place :: "string option"
  s_magnitude :: "real option"
  s_longitude :: "real option"
  s_latitude :: "real option"
  s_depth :: "real option"

record db =
  earthquake :: "rawrow list"
  stage_earthquake :: "factrow list"

datatype error =
    OperationalError | DataError | FileNotFoundError
  | JSONDecodeError | KeyError | IndexError | TypeError

text \<open>
  A psycopg2 connection: the first statement opens a transaction, \<^verbatim>\<open>commit()\<close> makes
  its changes durable, and \<^verbatim>\<open>close()\<close> drops what was not committed. \<open>committed\<close> is
  the database every session sees, \<open>session\<close> the database as this connection's open
  transaction sees it. The server is not part of the repository: \<open>faults\<close> says, for each
  coming round trip of the connection, whether the server fails it (an empty list: none
  fails).
\<close>

record conn =
  committed :: db
  session :: db
  faults :: "bool list"

definition connect :: "db \<Rightarrow> bool list \<Rightarrow> conn" where
  "connect d fl = \<lparr>committed = d, session = d, faults = fl\<rparr>"

definition round_trip :: "conn \<Rightarrow> bool \<times> conn" where
  "round_trip c =
     (case faults c of [] \<Rightarrow> (False, c) | b # bs \<Rightarrow> (b, c\<lparr>faults := bs\<rparr>))"

text \<open>
  \<^verbatim>\<open>cur.execute\<close> and \<^verbatim>\<open>cur.copy_expert\<close>: one statement, which either changes the
  session's view or raises; a statement that raises leaves a transaction whose changes
  are lost.
\<close>

definition execute :: "(db \<Rightarrow> error + db) \<Rightarrow> conn \<Rightarrow> error option \<times> conn" where
  "execute stmt c =
     (let (failed, c') = round_trip c in
      if failed then (Some OperationalError, c'\<lparr>session := committed c'\<rparr>)
      else (case stmt (session c') of
              Inl e \<Rightarrow> (Some e, c'\<lparr>session := committed c'\<rparr>)
            | Inr d \<Rightarrow> (None, c'\<lparr>session := d\<rparr>)))"

definition commit :: "conn \<Rightarrow> error option \<times> conn" where
  "commit c =
     (let (failed, c') = round_trip c in
      if failed then (Some OperationalError, c'\<lparr>session := committed c'\<rparr>)
      else (None, c'\<lparr>committed := session c'\<rparr>))"

subsection \<open>\<^verbatim>\<open>load_csv_starter.py\<close>\<close>

text \<open>
  A CSV file as \<^verbatim>\<open>COPY ... CSV HEADER\<close> reads it: a first line, which is skipped, and
  data lines. A data line either converts to a row of the table's column types or does
  not (a wrong number of fields, a field that is not a number).
\<close>

datatype csv_line = Row rawrow | Malformed

record csv_file =
  header :: "string list"
  lines :: "csv_line list"

fun row_of :: "csv_line \<Rightarrow> rawrow option" where
  "row_of (Row r) = Some r"
| "row_of Malformed = None"

text \<open>\<^verbatim>\<open>DELETE FROM earthquake WHERE filename=%s\<close>: a NULL file name never compares equal.\<close>

definition delete_query_load :: "string \<Rightarrow> db \<Rightarrow> error + db" where
  "delete_query_load k d =
     Inr (d\<lparr>earthquake := filter (\<lambda>r. filename r \<noteq> Some k) (earthquake d)\<rparr>)"

text \<open>
  \<^verbatim>\<open>COPY earthquake FROM STDIN DELIMITER ',' CSV HEADER\<close>: all data lines are appended,
  or none when one of them does not convert.
\<close>

definition copy_sql :: "csv_file \<Rightarrow> db \<Rightarrow> error + db" where
  "copy_sql f d =
     (case those (map row_of (lines f)) of
        None \<Rightarrow> Inl DataError
      | Some rs \<Rightarrow> Inr (d\<lparr>earthquake := earthquake d @ rs\<rparr>))"

definition delete_old_records_load :: "conn \<Rightarrow> string \<Rightarrow> error option \<times> conn" where
  "delete_old_records_load c csv_file_path =
     (case execute (delete_query_load csv_file_path) c of
        (Some e, c1) \<Rightarrow> (Some e, c1)
      | (None, c1) \<Rightarrow> commit c1)"

text \<open>\<^verbatim>\<open>open(csv_file_path)\<close> raises when there is no such file, before any statement is sent.\<close>

definition load_csv_to_postgres ::
  "(string \<rightharpoonup> csv_file) \<Rightarrow> conn \<Rightarrow> string \<Rightarrow> error option \<times> conn" where
  "load_csv_to_postgres fs c csv_file_path =
     (case fs csv_file_path of
        None \<Rightarrow> (Some FileNotFoundError, c)
      | Some f \<Rightarrow>
          (case execute (copy_sql f) c of
             (Some e, c1) \<Rightarrow> (Some e, c1)
           | (None, c1) \<Rightarrow> commit c1))"

text \<open>
  \<^verbatim>\<open>main\<close>, from the connection on, with the path (a constant of the script) as a
  parameter: the exception of either step is caught and printed, and the connection is
  closed on every path. The result is what was printed as an error, if anything, and the
  database the closed connection leaves behind.
\<close>

definition main_load ::
  "(string \<rightharpoonup> csv_file) \<Rightarrow> db \<Rightarrow> bool list \<Rightarrow> string \<Rightarrow> error option \<times> db" where
  "main_load fs d fl csv_file_path =
     (case delete_old_records_load (connect d fl) csv_file_path of
        (Some e, c1) \<Rightarrow> (Some e, committed c1)
      | (None, c1) \<Rightarrow>
          (case load_csv_to_postgres fs c1 csv_file_path of
             (r, c2) \<Rightarrow> (r, committed c2)))"

subsection \<open>\<^verbatim>\<open>transform_earthquake_starter.py\<close>\<close>

text \<open>\<^verbatim>\<open>time / 1000\<close> on integers: PostgreSQL truncates the quotient toward zero.\<close>

definition pg_div :: "int \<Rightarrow> int \<Rightarrow> int" where
  "pg_div a b = sgn a * sgn b * (\<bar>a\<bar> div \<bar>b\<bar>)"

text \<open>\<^verbatim>\<open>to_timestamp(time / 1000)\<close>: the instant that many seconds after the epoch.\<close>

definition to_timestamp :: "int option \<Rightarrow> int option" where
  "to_timestamp t = map_option (\<lambda>ms. pg_div ms 1000) t"

text \<open>
  \<^verbatim>\<open>cast(... AS date)\<close> of an instant is its calendar date in the time zone of the
  session; \<open>tz\<close> gives the zone's offset from UTC, in seconds, at an instant. The zone is
  a setting of the server and the session, not of the script.
\<close>

definition cast_date :: "(int \<Rightarrow> int) \<Rightarrow> int option \<Rightarrow> date option" where
  "cast_date tz t = map_option (\<lambda>secs. (secs + tz secs) div 86400) t"

text \<open>\<^verbatim>\<open>x BETWEEN s AND e\<close> in a WHERE clause: NULL is not true.\<close>

definition between :: "date option \<Rightarrow> date \<Rightarrow> date \<Rightarrow> bool" where
  "between x s e = (case x of None \<Rightarrow> False | Some v \<Rightarrow> s \<le> v \<and> v \<le> e)"

text \<open>The select list of the INSERT, for one row of \<^verbatim>\<open>public.earthquake\<close>.\<close>

definition select_row :: "(int \<Rightarrow> int) \<Rightarrow> rawrow \<Rightarrow> factrow" where
  "select_row tz r =
     \<lparr>ts = to_timestamp (time r),
      dt = cast_date tz (to_timestamp (time r)),
      s_place = clean_place (place r),
      s_magnitude = magnitude r,
      s_longitude = longitude r,
      s_latitude = latitude r,
      s_depth = depth r\<rparr>"

text \<open>
  The two statements. The window bounds reach the server as text and are read as dates;
  here they are dates already.
\<close>

definition delete_query_transform :: "date \<Rightarrow> date \<Rightarrow> db \<Rightarrow> error + db" where
  "delete_query_transform start_date end_date d =
     Inr (d\<lparr>stage_earthquake :=
            filter (\<lambda>f. \<not> between (dt f) start_date end_date) (stage_earthquake d)\<rparr>)"

definition insert_select :: "(int \<Rightarrow> int) \<Rightarrow> date \<Rightarrow> date \<Rightarrow> db \<Rightarrow> error + db" where
  "insert_select tz start_date end_date d =
     Inr (d\<lparr>stage_earthquake :=
            stage_earthquake d @
            map (select_row tz)
              (filter (\<lambda>r. between (cast_date tz (to_timestamp (time r))) start_date end_date)
                 (earthquake d))\<rparr>)"

definition delete_old_records_transform ::
  "conn \<Rightarrow> date \<Rightarrow> date \<Rightarrow> error option \<times> conn" where
  "delete_old_records_transform c start_date end_date =
     (case execute (delete_query_transform start_date end_date) c of
        (Some e, c1) \<Rightarrow> (Some e, c1)
      | (None, c1) \<Rightarrow> commit c1)"

definition transform_earthquake ::
  "(int \<Rightarrow> int) \<Rightarrow> conn \<Rightarrow> date \<Rightarrow> date \<Rightarrow> error option \<times> conn" where
  "transform_earthquake tz c start_date end_date =
     (case execute (insert_select tz start_date end_date) c of
        (Some e, c1) \<Rightarrow> (Some e, c1)
      | (None, c1) \<Rightarrow> commit c1)"

text \<open>\<^verbatim>\<open>main\<close>, from the connection on, with the two dates as parameters.\<close>

definition main_transform ::
  "(int \<Rightarrow> int) \<Rightarrow> db \<Rightarrow> bool list \<Rightarrow> date \<Rightarrow> date \<Rightarrow> error option \<times> db" where
  "main_transform tz d fl start_date end_date =
     (case delete_old_records_transform (connect d fl) start_date end_date of
        (Some e, c1) \<Rightarrow> (Some e, committed c1)
      | (None, c1) \<Rightarrow>
          (case transform_earthquake tz c1 start_date end_date of
             (r, c2) \<Rightarrow> (r, committed c2)))"

subsection \<open>\<^verbatim>\<open>process_earthquake_data_starter.py\<close>\<close>

text \<open>
  What \<^verbatim>\<open>response.json()\<close> returns: \<open>JObj\<close> is a dict, given by its items in order
  (the keys are distinct), \<open>JArr\<close> a list, \<open>JNull\<close> is \<^verbatim>\<open>None\<close>.
\<close>

datatype json =
    JNull | JBool bool | JInt int | JFloat real | JStr string
  | JArr "json list" | JObj "(string \<times> json) list"

text \<open>\<^verbatim>\<open>obj[key]\<close> with a string key: only a dict takes one.\<close>

fun getitem_str :: "json \<Rightarrow> string \<Rightarrow> error + json" where
  "getitem_str (JObj kvs) k = (case map_of kvs k of None \<Rightarrow> Inl KeyError | Some v \<Rightarrow> Inr v)"
| "getitem_str _ k = Inl TypeError"

text \<open>
  \<^verbatim>\<open>obj[i]\<close> with one of the indices 0, 1, 2: a list and a string are indexed, a dict
  of string keys has no such key.
\<close>

fun getitem_int :: "json \<Rightarrow> nat \<Rightarrow> error + json" where
  "getitem_int (JArr xs) i = (if i < length xs then Inr (xs ! i) else Inl IndexError)"
| "getitem_int (JStr s) i = (if i < length s then Inr (JStr [s ! i]) else Inl IndexError)"
| "getitem_int (JObj kvs) i = Inl KeyError"
| "getitem_int _ i = Inl TypeError"

text \<open>\<^verbatim>\<open>for feature in features\<close>: a list gives its elements, a dict its keys, a string its characters.\<close>

fun iter :: "json \<Rightarrow> error + json list" where
  "iter (JArr xs) = Inr xs"
| "iter (JObj kvs) = Inr (map (\<lambda>kv. JStr (fst kv)) kvs)"
| "iter (JStr s) = Inr (map (\<lambda>c. JStr [c]) s)"
| "iter _ = Inl TypeError"

definition bind :: "error + 'a \<Rightarrow> ('a \<Rightarrow> error + 'b) \<Rightarrow> error + 'b" where
  "bind m f = (case m of Inl e \<Rightarrow> Inl e | Inr x \<Rightarrow> f x)"

text \<open>
  The dict built for one feature; its entries are evaluated in the order written, so the
  first lookup that fails raises.
\<close>

definition earthquake_of :: "string \<Rightarrow> json \<Rightarrow> error + (string \<times> json) list" where
  "earthquake_of path feature =
     bind (getitem_str feature ''properties'') (\<lambda>properties.
     bind (getitem_str feature ''geometry'') (\<lambda>geometry.
     bind (getitem_str properties ''time'') (\<lambda>v_time.
     bind (getitem_str properties ''place'') (\<lambda>v_place.
     bind (getitem_str properties ''mag'') (\<lambda>v_mag.
     bind (bind (getitem_str geometry ''coordinates'') (\<lambda>cs. getitem_int cs 0)) (\<lambda>v_lon.
     bind (bind (getitem_str geometry ''coordinates'') (\<lambda>cs. getitem_int cs 1)) (\<lambda>v_lat.
     bind (bind (getitem_str geometry ''coordinates'') (\<lambda>cs. getitem_int cs 2)) (\<lambda>v_depth.
       Inr [(''time'', v_time), (''place'', v_place), (''magnitude'', v_mag),
            (''longitude'', v_lon), (''latitude'', v_lat), (''depth'', v_depth),
            (''file_name'', JStr path)]))))))))"

text \<open>The loop that appends one dict per feature to \<^verbatim>\<open>earthquakes\<close>.\<close>

fun earthquakes :: "string \<Rightarrow> json list \<Rightarrow> error + (string \<times> json) list list" where
  "earthquakes path [] = Inr []"
| "earthquakes path (feature # rest) =
     bind (earthquake_of path feature) (\<lambda>e.
     bind (earthquakes path rest) (\<lambda>es. Inr (e # es)))"

text \<open>
  \<^verbatim>\<open>pd.DataFrame(earthquakes)\<close> on a list of dicts: the columns are the keys of the
  dicts (here every dict has the same keys in the same order), so an empty list gives a
  frame without columns.
\<close>

record dataframe =
  columns :: "string list"
  cells :: "json list list"

definition DataFrame :: "(string \<times> json) list list \<Rightarrow> dataframe" where
  "DataFrame es =
     \<lparr>columns = (case es of [] \<Rightarrow> [] | e # _ \<Rightarrow> map fst e),
      cells = map (map snd) es\<rparr>"

text \<open>
  \<^verbatim>\<open>df.to_csv(filename, index=False)\<close>: the column names as the first line and one
  line per record. The text written for a record and what COPY makes of it are outside
  the repository: \<open>conv\<close> stands for both.
\<close>

definition to_csv :: "(json list \<Rightarrow> csv_line) \<Rightarrow> dataframe \<Rightarrow> csv_file" where
  "to_csv conv df = \<lparr>header = columns df, lines = map conv (cells df)\<rparr>"

record response =
  status_code :: int
  body :: "json option"

text \<open>The last line the function prints.\<close>

datatype report = Created string | Failed_to_retrieve int

text \<open>
  \<^verbatim>\<open>process_earthquake_data\<close>, from the response on, with the file name (built from
  today's date) as a parameter. \<open>body\<close> is \<open>None\<close> when the body is not JSON: the
  script prints \<^verbatim>\<open>response.json()\<close> before it looks at the status.
\<close>

definition process_earthquake_data ::
  "(json list \<Rightarrow> csv_line) \<Rightarrow> string \<Rightarrow> response \<Rightarrow> (string \<rightharpoonup> csv_file)
     \<Rightarrow> error + report \<times> (string \<rightharpoonup> csv_file)" where
  "process_earthquake_data conv path resp fs =
     (case body resp of
        None \<Rightarrow> Inl JSONDecodeError
      | Some js \<Rightarrow>
          if status_code resp = 200 then
            bind (getitem_str js ''features'') (\<lambda>features.
            bind (iter features) (\<lambda>items.
            bind (earthquakes path items) (\<lambda>es.
              let df = DataFrame es;
                  fs1 = (case fs path of None \<Rightarrow> fs | Some old \<Rightarrow> fs(path := None))
              in Inr (Created path, fs1(path \<mapsto> to_csv conv df)))))
          else Inr (Failed_to_retrieve (status_code resp), fs))"

subsection \<open>Example data\<close>

text \<open>
  Two rows of \<^verbatim>\<open>earthquake\<close> stamped with two file names, the files that hold them,
  two rows of \<^verbatim>\<open>raw.stage_earthquake\<close>, a session in UTC, and a feed item without
  \<^verbatim>\<open>mag\<close>. The instant 1700000000 is 2023-11-14 22:13:20 UTC, on day 19675.
\<close>

abbreviation utc :: "int \<Rightarrow> int" where
  "utc \<equiv> \<lambda>t. 0"

abbreviation row_a :: rawrow where
  "row_a \<equiv> \<lparr>time = Some 1700000000000, place = Some ''10km ENE of Example Town'',
            magnitude = Some 4, longitude = Some 10, latitude = Some 20, depth = Some 5,
            filename = Some ''a.csv''\<rparr>"

abbreviation row_b :: rawrow where
  "row_b \<equiv> \<lparr>time = Some 1700000000000, place = Some ''Fiji region'',
            magnitude = Some 5, longitude = Some 11, latitude = Some 21, depth = Some 6,
            filename = Some ''b.csv''\<rparr>"

abbreviation file_a :: csv_file where
  "file_a \<equiv> \<lparr>header = [''time'', ''place'', ''magnitude'', ''longitude'', ''latitude'',
                       ''depth'', ''file_name''],
             lines = [Row row_a]\<rparr>"


abbreviation fact_old :: factrow where
  "fact_old \<equiv> \<lparr>ts = Some 1699999000, dt = Some 19675, s_place = Some ''Old Town'',
               s_magnitude = Some 3, s_longitude = Some 1, s_latitude = Some 2,
               s_depth = Some 7\<rparr>"

abbreviation fact_far :: factrow where
  "fact_far \<equiv> \<lparr>ts = Some 86400, dt = Some 1, s_place = Some ''Far Town'',
               s_magnitude = Some 2, s_longitude = Some 3, s_latitude = Some 4,
               s_depth = Some 8\<rparr>"

abbreviation db_ab :: db where
  "db_ab \<equiv> \<lparr>earthquake = [row_a, row_b], stage_earthquake = [select_row utc row_a]\<rparr>"

abbreviation db_b :: db where
  "db_b \<equiv> \<lparr>earthquake = [row_b], stage_earthquake = [select_row utc row_a]\<rparr>"

abbreviation db_ab0 :: db where
  "db_ab0 \<equiv> \<lparr>earthquake = [row_a, row_b], stage_earthquake = []\<rparr>"

abbreviation no_conv :: "json list \<Rightarrow> csv_line" where
  "no_conv \<equiv> \<lambda>cs. Malformed"


section \<open>What a run leaves behind\<close>

text \<open>
  Every function of the two database scripts is a statement followed by a commit, run on a
  connection that holds no open change. Such a step either commits the statement's result
  or leaves the committed database as it was.
\<close>

lemmas run_defs =
  main_load_def delete_old_records_load_def load_csv_to_postgres_def
  main_transform_def delete_old_records_transform_def transform_earthquake_def
  execute_def commit_def round_trip_def connect_def
  delete_query_load_def copy_sql_def delete_query_transform_def insert_select_def

lemmas row_defs = between_def select_row_def cast_date_def to_timestamp_def pg_div_def

lemma execute_commit:
  assumes "session c = committed c"
    and "(case execute stmt c of (Some e, c1) \<Rightarrow> (Some e, c1) | (None, c1) \<Rightarrow> commit c1) = (r, c')"
  shows "session c' = committed c' \<and>
         (case r of None \<Rightarrow> stmt (committed c) = Inr (committed c')
                  | Some e \<Rightarrow> committed c' = committed c)"
  using assms
  by (auto simp: execute_def commit_def round_trip_def Let_def
           split: list.splits sum.splits if_splits option.splits prod.splits)

lemma delete_old_records_load_result:
  assumes "session c = committed c" and "delete_old_records_load c k = (r, c')"
  shows "session c' = committed c' \<and>
         (case r of None \<Rightarrow> delete_query_load k (committed c) = Inr (committed c')
                  | Some e \<Rightarrow> committed c' = committed c)"
  using execute_commit [OF assms(1), of "delete_query_load k" r c'] assms(2)
  by (simp add: delete_old_records_load_def)

lemma load_csv_to_postgres_result:
  assumes "session c = committed c" and "load_csv_to_postgres fs c k = (r, c')"
  shows "session c' = committed c' \<and>
         (case r of None \<Rightarrow> (\<exists>f. fs k = Some f \<and> copy_sql f (committed c) = Inr (committed c'))
                  | Some e \<Rightarrow> committed c' = committed c)"
proof (cases "fs k")
  case None
  with assms show ?thesis by (auto simp: load_csv_to_postgres_def)
next
  case (Some f)
  with assms(2) have "(case execute (copy_sql f) c of (Some e, c1) \<Rightarrow> (Some e, c1) | (None, c1) \<Rightarrow> commit c1) = (r, c')"
    by (simp add: load_csv_to_postgres_def)
  from execute_commit [OF assms(1) this] Some show ?thesis
    by (auto split: option.splits)
qed

lemma transform_earthquake_result:
  assumes "session c = committed c" and "transform_earthquake tz c s e = (r, c')"
  shows "session c' = committed c' \<and>
         (case r of None \<Rightarrow> insert_select tz s e (committed c) = Inr (committed c')
                  | Some x \<Rightarrow> committed c' = committed c)"
  using execute_commit [OF assms(1), of "insert_select tz s e" r c'] assms(2)
  by (simp add: transform_earthquake_def)

lemma delete_old_records_transform_result:
  assumes "session c = committed c" and "delete_old_records_transform c s e = (r, c')"
  shows "session c' = committed c' \<and>
         (case r of None \<Rightarrow> delete_query_transform s e (committed c) = Inr (committed c')
                  | Some x \<Rightarrow> committed c' = committed c)"
  using execute_commit [OF assms(1), of "delete_query_transform s e" r c'] assms(2)
  by (simp add: delete_old_records_transform_def)

lemma main_load_result:
  assumes "main_load fs d fl k = (r, d')"
  shows "case r of
           None \<Rightarrow> \<exists>f rs. fs k = Some f \<and> those (map row_of (lines f)) = Some rs \<and>
                     d' = d\<lparr>earthquake := filter (\<lambda>x. filename x \<noteq> Some k) (earthquake d) @ rs\<rparr>
         | Some e \<Rightarrow> d' = d \<or> d' = d\<lparr>earthquake := filter (\<lambda>x. filename x \<noteq> Some k) (earthquake d)\<rparr>"
proof -
  obtain r1 c1 where del: "delete_old_records_load (connect d fl) k = (r1, c1)"
    by (cases "delete_old_records_load (connect d fl) k")
  have fresh: "session (connect d fl) = committed (connect d fl)" "committed (connect d fl) = d"
    by (simp_all add: connect_def)
  note d1 = delete_old_records_load_result [OF fresh(1) del]
  show ?thesis
  proof (cases r1)
    case (Some e)
    with del assms d1 fresh show ?thesis by (auto simp: main_load_def)
  next
    case None
    obtain r2 c2 where ld: "load_csv_to_postgres fs c1 k = (r2, c2)"
      by (cases "load_csv_to_postgres fs c1 k")
    from d1 have s1: "session c1 = committed c1" by simp
    note d2 = load_csv_to_postgres_result [OF s1 ld]
    from None del ld assms have rd: "r = r2" "d' = committed c2"
      by (simp_all add: main_load_def)
    from None d1 fresh have c1: "committed c1 = d\<lparr>earthquake := filter (\<lambda>x. filename x \<noteq> Some k) (earthquake d)\<rparr>"
      by (simp add: delete_query_load_def)
    show ?thesis
    proof (cases r2)
      case (Some e)
      with d2 rd c1 show ?thesis by simp
    next
      case None
      with d2 obtain f where f: "fs k = Some f" "copy_sql f (committed c1) = Inr (committed c2)"
        by auto
      then show ?thesis using None rd c1
        by (auto simp: copy_sql_def split: option.splits)
    qed
  qed
qed

lemma main_transform_result:
  assumes "main_transform tz d fl s e = (r, d')"
  shows "case r of
           None \<Rightarrow> d' = d\<lparr>stage_earthquake :=
                      filter (\<lambda>f. \<not> between (dt f) s e) (stage_earthquake d) @
                      map (select_row tz)
                        (filter (\<lambda>x. between (cast_date tz (to_timestamp (time x))) s e) (earthquake d))\<rparr>
         | Some x \<Rightarrow> d' = d \<or>
                     d' = d\<lparr>stage_earthquake := filter (\<lambda>f. \<not> between (dt f) s e) (stage_earthquake d)\<rparr>"
proof -
  obtain r1 c1 where del: "delete_old_records_transform (connect d fl) s e = (r1, c1)"
    by (cases "delete_old_records_transform (connect d fl) s e")
  have fresh: "session (connect d fl) = committed (connect d fl)" "committed (connect d fl) = d"
    by (simp_all add: connect_def)
  note d1 = delete_old_records_transform_result [OF fresh(1) del]
  show ?thesis
  proof (cases r1)
    case (Some x)
    with del assms d1 fresh show ?thesis by (auto simp: main_transform_def)
  next
    case None
    obtain r2 c2 where tr: "transform_earthquake tz c1 s e = (r2, c2)"
      by (cases "transform_earthquake tz c1 s e")
    from d1 have s1: "session c1 = committed c1" by simp
    note d2 = transform_earthquake_result [OF s1 tr]
    from None del tr assms have rd: "r = r2" "d' = committed c2"
      by (simp_all add: main_transform_def)
    from None d1 fresh have c1: "committed c1 = d\<lparr>stage_earthquake := filter (\<lambda>f. \<not> between (dt f) s e) (stage_earthquake d)\<rparr>"
      by (simp add: delete_query_transform_def)
    show ?thesis
    proof (cases r2)
      case (Some x)
      with d2 rd c1 show ?thesis by simp
    next
      case None
      with d2 rd c1 show ?thesis
        by (simp add: insert_select_def)
    qed
  qed
qed


lemma dt_select_row: "dt (select_row tz r) = cast_date tz (to_timestamp (time r))"
  by (simp add: select_row_def)

subsection \<open>\<^verbatim>\<open>POSITION\<close> finds the first occurrence\<close>


lemma position_zero:
  "(\<forall>j\<le>length s. \<not> prefix sub (drop j s)) \<Longrightarrow> position sub s = 0"
proof (induction s)
  case Nil
  then show ?case by auto
next
  case (Cons c cs)
  have "\<forall>j\<le>length cs. \<not> prefix sub (drop j cs)"
  proof (intro allI impI)
    fix j assume "j \<le> length cs"
    then have "Suc j \<le> length (c # cs)" by simp
    with Cons.prems have "\<not> prefix sub (drop (Suc j) (c # cs))" by blast
    then show "\<not> prefix sub (drop j cs)" by simp
  qed
  with Cons.IH have "position sub cs = 0" by blast
  moreover have "\<not> prefix sub (c # cs)"
    using Cons.prems by (metis drop0 le0)
  ultimately show ?case by simp
qed

subsection \<open>A feature that raises stops the loop\<close>




section \<open>The claims\<close>

subsection \<open>C1: delete and insert are two transactions\<close>

text \<open>
  C1, as the code has it. Both scripts commit the delete before the insert starts. When
  the delete step succeeds and the insert step then raises, \<^verbatim>\<open>main\<close> prints the error
  and leaves the database with the rows of the file name (of the window) deleted and
  nothing inserted: the delete is not rolled back, and no row of the failed insert is
  visible.
\<close>

theorem replace_not_atomic:
  "(delete_old_records_load (connect d fl) k = (None, ca) \<and>
    load_csv_to_postgres fs ca k = (Some x, cb)
      \<longrightarrow> main_load fs d fl k =
            (Some x, d\<lparr>earthquake := filter (\<lambda>r. filename r \<noteq> Some k) (earthquake d)\<rparr>))
   \<and> (delete_old_records_transform (connect d fl') s e = (None, cc) \<and>
      transform_earthquake tz cc s e = (Some y, cd)
      \<longrightarrow> main_transform tz d fl' s e =
            (Some y, d\<lparr>stage_earthquake :=
                         filter (\<lambda>f. \<not> between (dt f) s e) (stage_earthquake d)\<rparr>))"
proof (intro conjI impI)
  assume a: "delete_old_records_load (connect d fl) k = (None, ca) \<and>
    load_csv_to_postgres fs ca k = (Some x, cb)"
  have fresh: "session (connect d fl) = committed (connect d fl)" "committed (connect d fl) = d"
    by (simp_all add: connect_def)
  from a delete_old_records_load_result [OF fresh(1), of k None ca]
  have ca: "session ca = committed ca" "delete_query_load k d = Inr (committed ca)"
    using fresh(2) by simp_all
  from a load_csv_to_postgres_result [OF ca(1), of fs k "Some x" cb]
  have "committed cb = committed ca" by simp
  with a ca(2) show "main_load fs d fl k =
            (Some x, d\<lparr>earthquake := filter (\<lambda>r. filename r \<noteq> Some k) (earthquake d)\<rparr>)"
    by (simp add: main_load_def delete_query_load_def)
next
  assume a: "delete_old_records_transform (connect d fl') s e = (None, cc) \<and>
      transform_earthquake tz cc s e = (Some y, cd)"
  have fresh: "session (connect d fl') = committed (connect d fl')" "committed (connect d fl') = d"
    by (simp_all add: connect_def)
  from a delete_old_records_transform_result [OF fresh(1), of s e None cc]
  have cc: "session cc = committed cc" "delete_query_transform s e d = Inr (committed cc)"
    using fresh(2) by simp_all
  from a transform_earthquake_result [OF cc(1), of tz s e "Some y" cd]
  have "committed cd = committed cc" by simp
  with a cc(2) show "main_transform tz d fl' s e =
            (Some y, d\<lparr>stage_earthquake :=
                         filter (\<lambda>f. \<not> between (dt f) s e) (stage_earthquake d)\<rparr>)"
    by (simp add: main_transform_def delete_query_transform_def)
qed

text \<open>
  An instance: the file to load is missing, and the server fails the third round trip of
  the transform.
\<close>

theorem replace_not_atomic_witness:
  "delete_old_records_load (connect db_ab []) ''a.csv'' = (None, connect db_b [])
   \<and> load_csv_to_postgres Map.empty (connect db_b []) ''a.csv''
       = (Some FileNotFoundError, connect db_b [])
   \<and> main_load Map.empty db_ab [] ''a.csv'' = (Some FileNotFoundError, db_b)
   \<and> delete_old_records_transform (connect db_ab [False, False, True]) 19675 19675
       = (None, connect db_ab0 [True])
   \<and> transform_earthquake utc (connect db_ab0 [True]) 19675 19675
       = (Some OperationalError, connect db_ab0 [])
   \<and> main_transform utc db_ab [False, False, True] 19675 19675
       = (Some OperationalError, db_ab0)"
proof -
  have h1: "delete_old_records_load (connect db_ab []) ''a.csv'' = (None, connect db_b [])"
    by (simp add: run_defs)
  have h2: "load_csv_to_postgres Map.empty (connect db_b []) ''a.csv''
       = (Some FileNotFoundError, connect db_b [])"
    by (simp add: run_defs)
  have h3: "delete_old_records_transform (connect db_ab [False, False, True]) 19675 19675
       = (None, connect db_ab0 [True])"
    by (simp add: run_defs row_defs)
  have h4: "transform_earthquake utc (connect db_ab0 [True]) 19675 19675
       = (Some OperationalError, connect db_ab0 [])"
    by (simp add: run_defs)
  note t = replace_not_atomic
      [where d = db_ab and fl = "[]" and k = "''a.csv''" and fs = Map.empty
         and x = FileNotFoundError and ca = "connect db_b []" and cb = "connect db_b []"
         and fl' = "[False, False, True]" and s = 19675 and e = 19675 and tz = utc
         and y = OperationalError and cc = "connect db_ab0 [True]" and cd = "connect db_ab0 []"]
  from t h1 h2 have l: "main_load Map.empty db_ab [] ''a.csv'' =
     (Some FileNotFoundError,
      db_ab\<lparr>earthquake := filter (\<lambda>r. filename r \<noteq> Some ''a.csv'') (earthquake db_ab)\<rparr>)"
    by blast
  from t h3 h4 have r: "main_transform utc db_ab [False, False, True] 19675 19675 =
     (Some OperationalError,
      db_ab\<lparr>stage_earthquake :=
              filter (\<lambda>f. \<not> between (dt f) 19675 19675) (stage_earthquake db_ab)\<rparr>)"
    by blast
  from l have l': "main_load Map.empty db_ab [] ''a.csv'' = (Some FileNotFoundError, db_b)"
    by simp
  from r have r': "main_transform utc db_ab [False, False, True] 19675 19675
       = (Some OperationalError, db_ab0)"
    by (simp add: row_defs)
  from h1 h2 h3 h4 l' r' show ?thesis by blast
qed

text \<open>
  C1, as the spec states it, fails: after a load whose file is missing the only row of
  the batch is gone, and after a transform whose insert fails the window is empty.
\<close>

theorem replace_loses_rows_counterexample:
  "main_load Map.empty \<lparr>earthquake = [row_a], stage_earthquake = []\<rparr> [] ''a.csv'' =
     (Some FileNotFoundError, \<lparr>earthquake = [], stage_earthquake = []\<rparr>)
   \<and> main_transform utc
       \<lparr>earthquake = [row_a], stage_earthquake = [select_row utc row_a]\<rparr>
       [False, False, True] 19675 19675 =
     (Some OperationalError, \<lparr>earthquake = [row_a], stage_earthquake = []\<rparr>)"
  by (simp add: run_defs between_def select_row_def cast_date_def to_timestamp_def pg_div_def)

subsection \<open>C2: a place without the token\<close>

text \<open>
  C2. The place \<open>''Fiji region''\<close> does not contain \<open>''of ''\<close>; \<^verbatim>\<open>POSITION\<close> gives 0,
  the substring starts at position 3, and the derived place is \<open>''ji region''\<close>, not the
  original value.
\<close>

theorem place_without_of_truncated:
  "position ''of '' ''Fiji region'' = 0
   \<and> clean_place (Some ''Fiji region'') = Some ''ji region''
   \<and> s_place (select_row utc row_b) = Some ''ji region''"
  by (simp add: clean_place_def substring_from_def trim_def select_row_def)

subsection \<open>C3: loading a batch twice\<close>




subsection \<open>C4: transforming a window twice\<close>

text \<open>
  C4. When two runs of the transform over the window \<open>[s, e]\<close> follow each other and
  print no error, the second leaves the database as the first did, and the rows of
  \<^verbatim>\<open>raw.stage_earthquake\<close> dated in the window are as many as the rows of
  \<^verbatim>\<open>earthquake\<close> whose derived date falls in it.
\<close>

theorem transform_idempotent:
  assumes "main_transform tz d fl s e = (None, d_once)"
    and "main_transform tz d_once fl' s e = (None, d_twice)"
  shows "d_twice = d_once \<and>
         length (filter (\<lambda>f. between (dt f) s e) (stage_earthquake d_twice)) =
         length (filter (\<lambda>r. between (cast_date tz (to_timestamp (time r))) s e) (earthquake d))"
proof -
  let ?keep = "filter (\<lambda>f. \<not> between (dt f) s e)"
  let ?win = "filter (\<lambda>r. between (cast_date tz (to_timestamp (time r))) s e)"
  from main_transform_result [OF assms(1)]
  have once: "d_once = d\<lparr>stage_earthquake :=
                ?keep (stage_earthquake d) @ map (select_row tz) (?win (earthquake d))\<rparr>"
    by simp
  from main_transform_result [OF assms(2)]
  have twice: "d_twice = d_once\<lparr>stage_earthquake :=
                ?keep (stage_earthquake d_once) @ map (select_row tz) (?win (earthquake d_once))\<rparr>"
    by simp
  have new_out: "?keep (map (select_row tz) (?win (earthquake d))) = []"
    by (simp add: filter_empty_conv dt_select_row)
  have new_in: "filter (\<lambda>f. between (dt f) s e) (map (select_row tz) (?win (earthquake d)))
                = map (select_row tz) (?win (earthquake d))"
    by (simp add: filter_id_conv dt_select_row)
  have old_in: "filter (\<lambda>f. between (dt f) s e) (?keep (stage_earthquake d)) = []"
    by (simp add: filter_empty_conv)
  have eq: "d_twice = d_once"
    using once twice new_out by simp
  have "filter (\<lambda>f. between (dt f) s e) (stage_earthquake d_once)
        = map (select_row tz) (?win (earthquake d))"
    using once new_in old_in by simp
  with eq show ?thesis by simp
qed

text \<open>An instance: one old row inside the window, one outside, two rows to derive.\<close>

theorem transform_idempotent_witness:
  "main_transform utc \<lparr>earthquake = [row_a, row_b], stage_earthquake = [fact_old, fact_far]\<rparr>
       [] 19675 19675
     = (None, \<lparr>earthquake = [row_a, row_b],
               stage_earthquake = [fact_far, select_row utc row_a, select_row utc row_b]\<rparr>)
   \<and> main_transform utc
       \<lparr>earthquake = [row_a, row_b],
        stage_earthquake = [fact_far, select_row utc row_a, select_row utc row_b]\<rparr>
       [] 19675 19675
     = (None, \<lparr>earthquake = [row_a, row_b],
               stage_earthquake = [fact_far, select_row utc row_a, select_row utc row_b]\<rparr>)
   \<and> length (filter (\<lambda>f. between (dt f) 19675 19675)
               [fact_far, select_row utc row_a, select_row utc row_b]) = 2
   \<and> length (filter (\<lambda>r. between (cast_date utc (to_timestamp (time r))) 19675 19675)
               [row_a, row_b]) = 2"
proof -
  have h1: "main_transform utc \<lparr>earthquake = [row_a, row_b], stage_earthquake = [fact_old, fact_far]\<rparr>
       [] 19675 19675
     = (None, \<lparr>earthquake = [row_a, row_b],
               stage_earthquake = [fact_far, select_row utc row_a, select_row utc row_b]\<rparr>)"
    by (simp add: run_defs row_defs)
  have h2: "main_transform utc
       \<lparr>earthquake = [row_a, row_b],
        stage_earthquake = [fact_far, select_row utc row_a, select_row utc row_b]\<rparr>
       [] 19675 19675
     = (None, \<lparr>earthquake = [row_a, row_b],
               stage_earthquake = [fact_far, select_row utc row_a, select_row utc row_b]\<rparr>)"
    by (simp add: run_defs row_defs)
  have n: "length (filter (\<lambda>r. between (cast_date utc (to_timestamp (time r))) 19675 19675)
               [row_a, row_b]) = 2"
    by (simp add: row_defs)
  from transform_idempotent [OF h1 h2] h1 h2 n show ?thesis
    by simp
qed

subsection \<open>C5: an empty feed\<close>

text \<open>
  C5, as the code has it. A response with status 200 whose \<^verbatim>\<open>features\<close> is the
  empty list gives a frame without columns: the file written has an empty first line and
  no data line. Loading it prints no error and adds no row, so no row carries its name.
\<close>

theorem empty_feed_file:
  "map_of kvs ''features'' = Some (JArr []) \<longrightarrow>
     process_earthquake_data conv path \<lparr>status_code = 200, body = Some (JObj kvs)\<rparr> fs
       = Inr (Created path, fs(path \<mapsto> \<lparr>header = [], lines = []\<rparr>))
     \<and> main_load (fs(path \<mapsto> \<lparr>header = [], lines = []\<rparr>)) d [] path
       = (None, d\<lparr>earthquake := filter (\<lambda>r. filename r \<noteq> Some path) (earthquake d)\<rparr>)
     \<and> filter (\<lambda>r. filename r = Some path)
          (earthquake (snd (main_load (fs(path \<mapsto> \<lparr>header = [], lines = []\<rparr>)) d [] path))) = []"
proof (intro impI conjI)
  assume a: "map_of kvs ''features'' = Some (JArr [])"
  then show "process_earthquake_data conv path \<lparr>status_code = 200, body = Some (JObj kvs)\<rparr> fs
       = Inr (Created path, fs(path \<mapsto> \<lparr>header = [], lines = []\<rparr>))"
    by (simp add: process_earthquake_data_def bind_def DataFrame_def to_csv_def
          split: option.splits)
  show l: "main_load (fs(path \<mapsto> \<lparr>header = [], lines = []\<rparr>)) d [] path
       = (None, d\<lparr>earthquake := filter (\<lambda>r. filename r \<noteq> Some path) (earthquake d)\<rparr>)"
    by (simp add: run_defs)
  show "filter (\<lambda>r. filename r = Some path)
          (earthquake (snd (main_load (fs(path \<mapsto> \<lparr>header = [], lines = []\<rparr>)) d [] path))) = []"
    by (simp add: l filter_empty_conv)
qed

text \<open>An instance: the empty feed overwrites yesterday's file, and the load removes its row.\<close>

theorem empty_feed_file_witness:
  "map_of [(''type'', JStr ''FeatureCollection''), (''features'', JArr [])] ''features''
     = Some (JArr [])
   \<and> process_earthquake_data no_conv ''a.csv''
       \<lparr>status_code = 200,
        body = Some (JObj [(''type'', JStr ''FeatureCollection''), (''features'', JArr [])])\<rparr>
       [''a.csv'' \<mapsto> file_a]
     = Inr (Created ''a.csv'', [''a.csv'' \<mapsto> \<lparr>header = [], lines = []\<rparr>])
   \<and> main_load [''a.csv'' \<mapsto> \<lparr>header = [], lines = []\<rparr>]
       \<lparr>earthquake = [row_a, row_b], stage_earthquake = []\<rparr> [] ''a.csv''
     = (None, \<lparr>earthquake = [row_b], stage_earthquake = []\<rparr>)"
proof -
  have h: "map_of [(''type'', JStr ''FeatureCollection''), (''features'', JArr [])] ''features''
     = Some (JArr [])"
    by simp
  from empty_feed_file
    [of "[(''type'', JStr ''FeatureCollection''), (''features'', JArr [])]" no_conv "''a.csv''"
        "[''a.csv'' \<mapsto> file_a]" "\<lparr>earthquake = [row_a, row_b], stage_earthquake = []\<rparr>"] h
  show ?thesis
    by simp
qed

text \<open>
  C5, as the spec states it, fails on the header: the first line of the file written for
  an empty feed has no column name.
\<close>

theorem empty_feed_header_counterexample:
  "process_earthquake_data no_conv ''a.csv''
      \<lparr>status_code = 200, body = Some (JObj [(''features'', JArr [])])\<rparr> Map.empty
     = Inr (Created ''a.csv'', [''a.csv'' \<mapsto> \<lparr>header = [], lines = []\<rparr>])
   \<and> header \<lparr>header = [], lines = []\<rparr> \<noteq>
       [''time'', ''place'', ''magnitude'', ''longitude'', ''latitude'', ''depth'', ''file_name'']"
  by (simp add: process_earthquake_data_def bind_def DataFrame_def to_csv_def)

subsection \<open>C6: a failed response, a malformed item\<close>




subsection \<open>C7: a place with the token\<close>



subsection \<open>C8: timestamp and date\<close>




subsection \<open>C9: the load keeps the other batches\<close>

text \<open>
  C9. Whatever a load for the path \<open>k\<close> does (either step may raise), the rows of
  \<^verbatim>\<open>earthquake\<close> whose file name is not \<open>k\<close> are afterwards the ones that were
  there, in their order, followed by those among the added rows; the added rows are none
  or the rows of the file at \<open>k\<close>. The other table is not touched.
\<close>

theorem load_keeps_other_batches:
  "\<exists>added.
      (added = [] \<or> (\<exists>f. fs k = Some f \<and> those (map row_of (lines f)) = Some added))
      \<and> filter (\<lambda>r. filename r \<noteq> Some k) (earthquake (snd (main_load fs d fl k))) =
          filter (\<lambda>r. filename r \<noteq> Some k) (earthquake d) @
          filter (\<lambda>r. filename r \<noteq> Some k) added
      \<and> stage_earthquake (snd (main_load fs d fl k)) = stage_earthquake d"
proof -
  obtain r d' where run: "main_load fs d fl k = (r, d')"
    by (cases "main_load fs d fl k")
  note res = main_load_result [OF run]
  show ?thesis
  proof (cases r)
    case (Some x)
    with res have "d' = d \<or> d' = d\<lparr>earthquake := filter (\<lambda>x. filename x \<noteq> Some k) (earthquake d)\<rparr>"
      by simp
    then have "filter (\<lambda>r. filename r \<noteq> Some k) (earthquake d') =
               filter (\<lambda>r. filename r \<noteq> Some k) (earthquake d) @ filter (\<lambda>r. filename r \<noteq> Some k) []
               \<and> stage_earthquake d' = stage_earthquake d"
      by auto
    with run show ?thesis by (intro exI [of _ "[]"]) simp
  next
    case None
    with res obtain f rs where f: "fs k = Some f" "those (map row_of (lines f)) = Some rs"
      and d': "d' = d\<lparr>earthquake := filter (\<lambda>x. filename x \<noteq> Some k) (earthquake d) @ rs\<rparr>"
      by auto
    from d' have "filter (\<lambda>r. filename r \<noteq> Some k) (earthquake d') =
               filter (\<lambda>r. filename r \<noteq> Some k) (earthquake d) @ filter (\<lambda>r. filename r \<noteq> Some k) rs
               \<and> stage_earthquake d' = stage_earthquake d"
      by simp
    with run f show ?thesis by (intro exI [of _ rs]) simp
  qed
qed

subsection \<open>C10: the transform keeps the source table\<close>

text \<open>
  C10. Whatever a transform does (either step may raise), the table \<^verbatim>\<open>earthquake\<close>
  is afterwards what it was; neither of its two statements changes that table.
\<close>

theorem transform_keeps_raw_table:
  "earthquake (snd (main_transform tz d fl s e)) = earthquake d
   \<and> map_sum id earthquake (delete_query_transform s e d) = Inr (earthquake d)
   \<and> map_sum id earthquake (insert_select tz s e d) = Inr (earthquake d)"
proof -
  obtain r d' where run: "main_transform tz d fl s e = (r, d')"
    by (cases "main_transform tz d fl s e")
  from main_transform_result [OF run] have "earthquake d' = earthquake d"
    by (cases r) auto
  with run show ?thesis
    by (simp add: delete_query_transform_def insert_select_def)
qed

end
